theory Spec2Isabelle
  imports Main "HOL-Library.Sublist"
begin

section \<open>JavaScript values\<close>

text \<open>
  The client of \<^verbatim>\<open>src/data/PortainerApi.ts\<close> handles response bodies that TypeScript
  types as \<^verbatim>\<open>any\<close> and casts without a check (\<^verbatim>\<open>data as T\<close>), so the embedding
  works on untyped JavaScript values. Numbers are restricted to integers (status codes
  and ids), strings are lists of 8-bit characters, and an object is the association
  list of its own properties (the first binding of a key is the one that counts).
\<close>

datatype jsval =
    JUndefined
  | JNull
  | JBool bool
  | JNum int
  | JStr string
  | JArr "jsval list"
  | JObj "(string \<times> jsval) list"

text \<open>Faults thrown by the client itself: they reject the promise of an async method.\<close>

datatype fault = NotLoggedIn | TypeError

text \<open>ToBoolean: what \<^verbatim>\<open>||\<close>, \<^verbatim>\<open>?:\<close>, \<^verbatim>\<open>if\<close> and lodash's \<^verbatim>\<open>compact\<close> test.\<close>

fun truthy :: "jsval \<Rightarrow> bool" where
  "truthy JUndefined = False"
| "truthy JNull = False"
| "truthy (JBool b) = b"
| "truthy (JNum n) = (n \<noteq> 0)"
| "truthy (JStr s) = (s \<noteq> [])"
| "truthy (JArr xs) = True"
| "truthy (JObj kvs) = True"

text \<open>The \<^verbatim>\<open>typeof\<close> operator; \<^verbatim>\<open>typeof null\<close> is \<^verbatim>\<open>"object"\<close>, as it is for arrays.\<close>

fun js_typeof :: "jsval \<Rightarrow> string" where
  "js_typeof JUndefined = ''undefined''"
| "js_typeof JNull = ''object''"
| "js_typeof (JBool b) = ''boolean''"
| "js_typeof (JNum n) = ''number''"
| "js_typeof (JStr s) = ''string''"
| "js_typeof (JArr xs) = ''object''"
| "js_typeof (JObj kvs) = ''object''"

text \<open>
  Reading a property \<^verbatim>\<open>v.k\<close> (also by destructuring): a TypeError on \<^verbatim>\<open>null\<close> and
  \<^verbatim>\<open>undefined\<close>, the own property of an object, and \<^verbatim>\<open>undefined\<close> otherwise (the
  keys read by the client, \<^verbatim>\<open>jwt\<close>, \<^verbatim>\<open>Name\<close>, \<^verbatim>\<open>Id\<close>, \<^verbatim>\<open>EndpointId\<close>, \<^verbatim>\<open>message\<close>
  and \<^verbatim>\<open>details\<close>, are not built-in properties of any other value).
\<close>

fun get_prop :: "jsval \<Rightarrow> string \<Rightarrow> fault + jsval" where
  "get_prop JUndefined k = Inl TypeError"
| "get_prop JNull k = Inl TypeError"
| "get_prop (JObj kvs) k = Inr (case map_of kvs k of None \<Rightarrow> JUndefined | Some v \<Rightarrow> v)"
| "get_prop v k = Inr JUndefined"

text \<open>
  Strict equality \<^verbatim>\<open>===\<close>: primitives are compared by type and value, objects and
  arrays by identity, and two values parsed from different places are never the same
  object.
\<close>

fun js_strict_eq :: "jsval \<Rightarrow> jsval \<Rightarrow> bool" where
  "js_strict_eq (JArr xs) w = False"
| "js_strict_eq (JObj kvs) w = False"
| "js_strict_eq v w = (v = w)"

subsection \<open>Conversion to strings\<close>

definition digit_char :: "nat \<Rightarrow> char" where
  "digit_char d = ''0123456789'' ! d"

fun string_of_nat :: "nat \<Rightarrow> string" where
  "string_of_nat n =
     (if n < 10 then [digit_char n] else string_of_nat (n div 10) @ [digit_char (n mod 10)])"

definition string_of_int :: "int \<Rightarrow> string" where
  "string_of_int i = (if i < 0 then CHR ''-'' # string_of_nat (nat (- i)) else string_of_nat (nat i))"

fun join_strings :: "string \<Rightarrow> string list \<Rightarrow> string" where
  "join_strings sep [] = []"
| "join_strings sep [x] = x"
| "join_strings sep (x # y # ys) = x @ sep @ join_strings sep (y # ys)"

text \<open>
  ToString, as template literals and \<^verbatim>\<open>Array.prototype.join\<close> apply it; \<^verbatim>\<open>join\<close>
  renders \<^verbatim>\<open>null\<close> and \<^verbatim>\<open>undefined\<close> elements as the empty string. Objects are plain
  (parsed from JSON), so they print as \<^verbatim>\<open>[object Object]\<close>.
\<close>

fun js_toString :: "jsval \<Rightarrow> string" where
  "js_toString JUndefined = ''undefined''"
| "js_toString JNull = ''null''"
| "js_toString (JBool b) = (if b then ''true'' else ''false'')"
| "js_toString (JNum n) = string_of_int n"
| "js_toString (JStr s) = s"
| "js_toString (JArr xs) =
     join_strings '','' (map (\<lambda>x. if x = JUndefined \<or> x = JNull then [] else js_toString x) xs)"
| "js_toString (JObj kvs) = ''[object Object]''"

definition js_join :: "string \<Rightarrow> jsval list \<Rightarrow> string" where
  "js_join sep xs =
     join_strings sep (map (\<lambda>x. if x = JUndefined \<or> x = JNull then [] else js_toString x) xs)"

text \<open>lodash \<^verbatim>\<open>_.compact\<close>: the truthy elements, in order.\<close>

definition compact :: "jsval list \<Rightarrow> jsval list" where
  "compact xs = filter truthy xs"

text \<open>
  \<^verbatim>\<open>String.prototype.trim\<close> removes white space and line terminators at both ends.
  Among the characters of one byte these are tab, line feed, vertical tab, form feed,
  carriage return, space and the no-break space U+00A0.
\<close>

definition is_space :: "char \<Rightarrow> bool" where
  "is_space c = (of_char c \<in> set [9, 10, 11, 12, 13, 32, 160 :: nat])"

definition js_trim :: "string \<Rightarrow> string" where
  "js_trim s = rev (dropWhile is_space (rev (dropWhile is_space s)))"

text \<open>\<^verbatim>\<open>String.prototype.startsWith\<close>.\<close>

definition startsWith :: "string \<Rightarrow> string \<Rightarrow> bool" where
  "startsWith s p = (take (length p) s = p)"

text \<open>
  \<^verbatim>\<open>Array.prototype.find\<close> and \<^verbatim>\<open>filter\<close> with a callback that may throw: the first
  throw ends the iteration.
\<close>

fun js_find :: "(jsval \<Rightarrow> fault + bool) \<Rightarrow> jsval list \<Rightarrow> fault + jsval" where
  "js_find p [] = Inr JUndefined"
| "js_find p (x # xs) =
     (case p x of
        Inl f \<Rightarrow> Inl f
      | Inr b \<Rightarrow> if b then Inr x else js_find p xs)"

fun js_filter :: "(jsval \<Rightarrow> fault + bool) \<Rightarrow> jsval list \<Rightarrow> fault + jsval list" where
  "js_filter p [] = Inr []"
| "js_filter p (x # xs) =
     (case p x of
        Inl f \<Rightarrow> Inl f
      | Inr b \<Rightarrow>
          (case js_filter p xs of
             Inl f \<Rightarrow> Inl f
           | Inr ys \<Rightarrow> Inr (if b then x # ys else ys)))"

section \<open>The result type\<close>

text \<open>
  Modelled from the spec: \<^verbatim>\<open>src/utils/Either.ts\<close> is not among the sources. The spec
  has: exactly one of \<^verbatim>\<open>Success(T)\<close> or \<^verbatim>\<open>Error(E)\<close>, with \<^verbatim>\<open>map\<close> (transform the
  success value), \<^verbatim>\<open>flatMap\<close> (chain a dependent fallible operation) and \<^verbatim>\<open>match\<close>
  (a fold over both variants). A callback that throws passes its fault on.
\<close>

datatype ('e, 'a) Either = Error 'e | Success 'a

fun isError :: "('e, 'a) Either \<Rightarrow> bool" where
  "isError (Error e) = True"
| "isError (Success v) = False"

fun Either_map :: "('a \<Rightarrow> fault + 'b) \<Rightarrow> ('e, 'a) Either \<Rightarrow> fault + ('e, 'b) Either" where
  "Either_map f (Error e) = Inr (Error e)"
| "Either_map f (Success v) = (case f v of Inl t \<Rightarrow> Inl t | Inr w \<Rightarrow> Inr (Success w))"

fun Either_flatMap ::
  "('a \<Rightarrow> fault + ('e, 'b) Either) \<Rightarrow> ('e, 'a) Either \<Rightarrow> fault + ('e, 'b) Either" where
  "Either_flatMap f (Error e) = Inr (Error e)"
| "Either_flatMap f (Success v) = f v"

fun Either_match :: "('e \<Rightarrow> 'r) \<Rightarrow> ('a \<Rightarrow> 'r) \<Rightarrow> ('e, 'a) Either \<Rightarrow> 'r" where
  "Either_match on_error on_success (Error e) = on_error e"
| "Either_match on_error on_success (Success v) = on_success v"

section \<open>The transport\<close>

datatype Method = GET | POST | PUT | DELETE

text \<open>
  The configuration handed to \<^verbatim>\<open>axios\<close>. \<^verbatim>\<open>validateStatus\<close> is the constant
  \<^verbatim>\<open>true\<close> in every call, so axios resolves for every status and the field is left
  out. An absent \<^verbatim>\<open>data\<close> or \<^verbatim>\<open>params\<close> is \<open>JUndefined\<close>.
\<close>

record AxiosRequestConfig =
  "method" :: Method
  url :: string
  headers :: "(string \<times> string) list"
  data :: jsval
  params :: jsval

text \<open>
  The response: its \<^verbatim>\<open>status\<close> and its \<^verbatim>\<open>data\<close>, the parsed body (the field is
  \<open>body\<close> here, \<open>data\<close> being the field of the configuration).
\<close>

record AxiosResponse =
  status :: int
  body :: jsval

text \<open>
  What \<^verbatim>\<open>catch (err)\<close> can see of a thrown value: whether it is truthy, its
  \<^verbatim>\<open>message\<close> (a string, when it has one) and what \<^verbatim>\<open>toString()\<close> gives.
\<close>

datatype thrown = ThrownFalsy | ThrownTruthy "string option" string

text \<open>
  The network is a parameter: \<^verbatim>\<open>axios\<close> maps a configuration and the state of the
  world to a rejection or a response, and a new state of the world.
  \<^verbatim>\<open>JSON.stringify\<close> is the built-in serializer, a parameter as well.
\<close>

record 'w runtime =
  axios :: "AxiosRequestConfig \<Rightarrow> 'w \<Rightarrow> (thrown + AxiosResponse) \<times> 'w"
  JSON_stringify :: "jsval \<Rightarrow> string"

text \<open>The world, and the configurations of the calls made so far, oldest first.\<close>

record 'w env =
  server :: 'w
  sent :: "AxiosRequestConfig list"

definition axios_call ::
  "'w runtime \<Rightarrow> AxiosRequestConfig \<Rightarrow> 'w env \<Rightarrow> (thrown + AxiosResponse) \<times> 'w env" where
  "axios_call rt cfg e =
     (case axios rt cfg (server e) of
        (out, w') \<Rightarrow> (out, \<lparr>server = w', sent = sent e @ [cfg]\<rparr>))"

section \<open>The client\<close>

record ConstructorOptions =
  baseUrl :: string

text \<open>
  \<^verbatim>\<open>type State = { type: "not-logged" } | { type: "logged"; endpointId; token }\<close>.
  The fields hold what the responses gave, unchecked.
\<close>

datatype State = NotLogged | Logged jsval jsval

record PortainerApi =
  options :: ConstructorOptions
  apiUrl :: string
  state :: State

text \<open>
  \<^verbatim>\<open>s.replace(/\/*$/, "")\<close>: the pattern is tried at each position from the left and
  matches at the first one from which only slashes remain up to the end of the string;
  that match is replaced by the empty string.
\<close>

fun replace_trailing_slashes :: "string \<Rightarrow> string" where
  "replace_trailing_slashes [] = []"
| "replace_trailing_slashes (c # cs) =
     (if list_all (\<lambda>x. x = CHR ''/'') (c # cs) then [] else c # replace_trailing_slashes cs)"

text \<open>The constructor; \<^verbatim>\<open>state || { type: "not-logged" }\<close> with the optional argument.\<close>

definition new_PortainerApi :: "ConstructorOptions \<Rightarrow> State option \<Rightarrow> PortainerApi" where
  "new_PortainerApi opts st =
     (let baseUrl' = replace_trailing_slashes (baseUrl opts)
      in \<lparr>options = opts,
          apiUrl = baseUrl' @ ''/api'',
          state = (case st of None \<Rightarrow> NotLogged | Some s \<Rightarrow> s)\<rparr>)"

text \<open>
  \<^verbatim>\<open>getLoggedInData\<close> throws when the state is not \<^verbatim>\<open>logged\<close> and returns the state
  otherwise: the pair of its \<^verbatim>\<open>endpointId\<close> and \<^verbatim>\<open>token\<close>.
\<close>

definition getLoggedInData :: "PortainerApi \<Rightarrow> fault + (jsval \<times> jsval)" where
  "getLoggedInData this =
     (case state this of
        NotLogged \<Rightarrow> Inl NotLoggedIn
      | Logged e t \<Rightarrow> Inr (e, t))"

definition getUrl :: "PortainerApi \<Rightarrow> string \<Rightarrow> string" where
  "getUrl this path =
     (let path2 = (if startsWith path ''/'' then path else ''/'' @ path)
      in apiUrl this @ path2)"

text \<open>The getters \<^verbatim>\<open>baseUrl\<close>, \<^verbatim>\<open>token\<close> and \<^verbatim>\<open>endpointId\<close>.\<close>

definition get_baseUrl :: "PortainerApi \<Rightarrow> string" where
  "get_baseUrl this = baseUrl (options this)"

definition get_token :: "PortainerApi \<Rightarrow> fault + jsval" where
  "get_token this = (case getLoggedInData this of Inl f \<Rightarrow> Inl f | Inr (e, t) \<Rightarrow> Inr t)"

definition get_endpointId :: "PortainerApi \<Rightarrow> fault + jsval" where
  "get_endpointId this = (case getLoggedInData this of Inl f \<Rightarrow> Inl f | Inr (e, t) \<Rightarrow> Inr e)"

subsection \<open>Instances on a heap\<close>

text \<open>
  Instances are mutable objects: a heap is the list of the instances created so far and
  a reference is an index into it. \<^verbatim>\<open>new\<close> appends; nothing is ever freed.
\<close>

type_synonym ref = nat

type_synonym heap = "PortainerApi list"

record SessionOptions =
  token :: jsval
  endpointId :: jsval

text \<open>\<^verbatim>\<open>this.state = { type: "not-logged" }\<close>\<close>

definition clearSession :: "heap \<Rightarrow> ref \<Rightarrow> heap" where
  "clearSession h this = h[this := (h ! this)\<lparr>state := NotLogged\<rparr>]"

text \<open>\<^verbatim>\<open>this.state = { type: "logged", ...options }\<close>\<close>

definition setSession :: "heap \<Rightarrow> ref \<Rightarrow> SessionOptions \<Rightarrow> heap" where
  "setSession h this opts = h[this := (h ! this)\<lparr>state := Logged (endpointId opts) (token opts)\<rparr>]"

subsection \<open>The request wrapper\<close>

text \<open>
  The private method \<^verbatim>\<open>request\<close> is called with a \<^verbatim>\<open>baseRequest\<close> that has a
  \<^verbatim>\<open>data\<close>, a \<^verbatim>\<open>params\<close> or nothing; the optional \<^verbatim>\<open>token\<close> is \<open>JUndefined\<close> when
  absent.
\<close>

record BaseRequest =
  req_data :: jsval
  req_params :: jsval

definition no_request :: BaseRequest where
  "no_request = \<lparr>req_data = JUndefined, req_params = JUndefined\<rparr>"

text \<open>
  The configuration of the one call: \<^verbatim>\<open>token || (logged ? state.token : null)\<close>, the
  \<^verbatim>\<open>Authorization\<close> header when that is truthy, and the spread of the request over the
  defaults.
\<close>

definition request_config ::
  "PortainerApi \<Rightarrow> Method \<Rightarrow> string \<Rightarrow> BaseRequest \<Rightarrow> jsval \<Rightarrow> AxiosRequestConfig" where
  "request_config this meth path baseRequest tok =
     (let token2 = (if truthy tok then tok
                    else (case state this of Logged e t \<Rightarrow> t | NotLogged \<Rightarrow> JNull))
      in \<lparr>method = meth,
          url = getUrl this path,
          headers = (if truthy token2 then [(''Authorization'', ''Bearer '' @ js_toString token2)]
                     else []),
          data = req_data baseRequest,
          params = req_params baseRequest\<rparr>)"

text \<open>\<^verbatim>\<open>err ? err.message || err.toString() : "Unknown error"\<close>\<close>

fun catch_message :: "thrown \<Rightarrow> string" where
  "catch_message ThrownFalsy = ''Unknown error''"
| "catch_message (ThrownTruthy None str) = str"
| "catch_message (ThrownTruthy (Some m) str) = (if m \<noteq> [] then m else str)"

text \<open>
  The message of a response that is not a success. The branches are those of
  \<^verbatim>\<open>typeof data\<close>: \<^verbatim>\<open>"string"\<close>, then \<^verbatim>\<open>"object"\<close> (where the destructuring of
  \<^verbatim>\<open>message\<close> and \<^verbatim>\<open>details\<close> throws on \<^verbatim>\<open>null\<close>), then the rest.
\<close>

definition response_message :: "(jsval \<Rightarrow> string) \<Rightarrow> jsval \<Rightarrow> fault + string" where
  "response_message stringify d =
     (if js_typeof d = ''string'' then
        (case d of JStr s \<Rightarrow> Inr (js_trim s) | _ \<Rightarrow> Inr [])
      else if js_typeof d = ''object'' then
        (case get_prop d ''message'' of
           Inl f \<Rightarrow> Inl f
         | Inr message \<Rightarrow>
             (case get_prop d ''details'' of
                Inl f \<Rightarrow> Inl f
              | Inr details \<Rightarrow>
                  (let joined = js_join '': '' (compact [message, details])
                   in Inr (if joined \<noteq> [] then joined else stringify d))))
      else Inr ''Unknown error'')"

definition success_status :: "int \<Rightarrow> bool" where
  "success_status st = ((200 \<le> st \<and> st < 300) \<or> st \<in> set [304])"

definition request ::
  "'w runtime \<Rightarrow> PortainerApi \<Rightarrow> Method \<Rightarrow> string \<Rightarrow> BaseRequest \<Rightarrow> jsval \<Rightarrow> 'w env
     \<Rightarrow> (fault + (string, jsval) Either) \<times> 'w env" where
  "request rt this meth path baseRequest tok e =
     (case axios_call rt (request_config this meth path baseRequest tok) e of
        (Inl err, e') \<Rightarrow> (Inr (Error (catch_message err)), e')
      | (Inr response, e') \<Rightarrow>
          if success_status (status response) then (Inr (Success (body response)), e')
          else
            (case response_message (JSON_stringify rt) (body response) of
               Inl f \<Rightarrow> (Inl f, e')
             | Inr msg \<Rightarrow>
                 (let fullMsg = js_join '' - '' (compact [JNum (status response), JStr msg])
                  in (Inr (Error fullMsg), e'))))"

subsection \<open>Login\<close>

record LoginOptions =
  username :: string
  password :: string
  endpointName :: string

text \<open>
  The callback of \<^verbatim>\<open>endpointsRes.flatMap\<close>: the first endpoint whose \<^verbatim>\<open>Name\<close> is
  strictly equal to the name asked for and the instance constructed for it, or the
  error. The instance takes the options of \<^verbatim>\<open>this\<close> and the new state.
\<close>

definition resolve_endpoint ::
  "PortainerApi \<Rightarrow> string \<Rightarrow> jsval \<Rightarrow> jsval \<Rightarrow> fault + (string, PortainerApi) Either" where
  "resolve_endpoint this name tok endpoints =
     (case endpoints of
        JArr es \<Rightarrow>
          (case js_find (\<lambda>endpoint.
                    case get_prop endpoint ''Name'' of
                      Inl f \<Rightarrow> Inl f
                    | Inr n \<Rightarrow> Inr (js_strict_eq n (JStr name))) es of
             Inl f \<Rightarrow> Inl f
           | Inr endpoint \<Rightarrow>
               if truthy endpoint then
                 (case get_prop endpoint ''Id'' of
                    Inl f \<Rightarrow> Inl f
                  | Inr eid \<Rightarrow>
                      (let newState = Logged eid tok;
                           newApi = new_PortainerApi (options this) (Some newState)
                       in Inr (Success newApi)))
               else Inr (Error (''Cannot find endpoint '' @ [CHR 0x27] @ name @ [CHR 0x27])))
      | _ \<Rightarrow> Inl TypeError)"

text \<open>
  \<^verbatim>\<open>login\<close>: the two requests in sequence. The instance returned in \<^verbatim>\<open>Success\<close> is
  a new object: it is appended to the heap and the result carries its reference. The
  object \<^verbatim>\<open>this\<close> is only read.
\<close>

definition auth_request :: "LoginOptions \<Rightarrow> BaseRequest" where
  "auth_request opts =
     (let d = JObj [(''Username'', JStr (username opts)), (''Password'', JStr (password opts))]
      in \<lparr>req_data = d, req_params = JUndefined\<rparr>)"

definition login ::
  "'w runtime \<Rightarrow> heap \<Rightarrow> ref \<Rightarrow> LoginOptions \<Rightarrow> 'w env
     \<Rightarrow> (fault + (string, ref) Either) \<times> heap \<times> 'w env" where
  "login rt h this opts e =
     (case request rt (h ! this) POST ''/auth'' (auth_request opts) JUndefined e of
        (Inl f, e1) \<Rightarrow> (Inl f, h, e1)
      | (Inr loginResponse, e1) \<Rightarrow>
          Either_match
            (\<lambda>msg. (Inr (Error msg), h, e1))
            (\<lambda>loginResponse.
               case get_prop loginResponse ''jwt'' of
                 Inl f \<Rightarrow> (Inl f, h, e1)
               | Inr tok \<Rightarrow>
                   (case request rt (h ! this) GET ''/endpoints'' no_request tok e1 of
                      (Inl f, e2) \<Rightarrow> (Inl f, h, e2)
                    | (Inr endpointsRes, e2) \<Rightarrow>
                        (case Either_flatMap
                                (resolve_endpoint (h ! this) (endpointName opts) tok)
                                endpointsRes of
                           Inl f \<Rightarrow> (Inl f, h, e2)
                         | Inr (Error msg) \<Rightarrow> (Inr (Error msg), h, e2)
                         | Inr (Success newApi) \<Rightarrow>
                             (Inr (Success (length h)), h @ [newApi], e2))))
            loginResponse)"

subsection \<open>Stacks\<close>

text \<open>
  \<^verbatim>\<open>getStacks\<close>: the request first, then the \<^verbatim>\<open>endpointId\<close> getter (which throws
  when not logged in), then the filter under \<^verbatim>\<open>res.map\<close>.
\<close>

definition getStacks ::
  "'w runtime \<Rightarrow> PortainerApi \<Rightarrow> 'w env \<Rightarrow> (fault + (string, jsval) Either) \<times> 'w env" where
  "getStacks rt this e =
     (case request rt this GET ''/stacks'' no_request JUndefined e of
        (Inl f, e') \<Rightarrow> (Inl f, e')
      | (Inr res, e') \<Rightarrow>
          (case get_endpointId this of
             Inl f \<Rightarrow> (Inl f, e')
           | Inr eid \<Rightarrow>
               (Either_map
                  (\<lambda>allStacks.
                     case allStacks of
                       JArr stacks \<Rightarrow>
                         (case js_filter (\<lambda>stack.
                                   case get_prop stack ''EndpointId'' of
                                     Inl f \<Rightarrow> Inl f
                                   | Inr v \<Rightarrow> Inr (js_strict_eq v eid)) stacks of
                            Inl f \<Rightarrow> Inl f
                          | Inr ys \<Rightarrow> Inr (JArr ys))
                     | _ \<Rightarrow> Inl TypeError)
                  res, e')))"

text \<open>
  \<^verbatim>\<open>deleteStacks\<close>: the \<^verbatim>\<open>for ... of\<close> loop over the ids, one awaited request each,
  left at the first result that is an error (or at a rejected request).
\<close>

definition delete_path :: "int \<Rightarrow> string" where
  "delete_path stackId = ''/stacks/'' @ string_of_int stackId"

definition delete_config :: "PortainerApi \<Rightarrow> int \<Rightarrow> AxiosRequestConfig" where
  "delete_config this stackId = request_config this DELETE (delete_path stackId) no_request JUndefined"

fun deleteStacks ::
  "'w runtime \<Rightarrow> PortainerApi \<Rightarrow> int list \<Rightarrow> 'w env
     \<Rightarrow> (fault + (string, jsval) Either) \<times> 'w env" where
  "deleteStacks rt this [] e = (Inr (Success JUndefined), e)"
| "deleteStacks rt this (stackId # stackIds) e =
     (case request rt this DELETE (delete_path stackId) no_request JUndefined e of
        (Inl f, e') \<Rightarrow> (Inl f, e')
      | (Inr res, e') \<Rightarrow>
          if isError res then (Inr res, e') else deleteStacks rt this stackIds e')"


section \<open>Reference definitions\<close>

text \<open>
  One unconditional \<^verbatim>\<open>DELETE\<close> per id, in the order of the list, each on the world
  the one before it left: the results and the worlds after them. \<^verbatim>\<open>deleteStacks\<close> is
  compared with this run.
\<close>

fun delete_each ::
  "'w runtime \<Rightarrow> PortainerApi \<Rightarrow> int list \<Rightarrow> 'w env
     \<Rightarrow> ((fault + (string, jsval) Either) \<times> 'w env) list" where
  "delete_each rt this [] e = []"
| "delete_each rt this (stackId # stackIds) e =
     (let r = request rt this DELETE (delete_path stackId) no_request JUndefined e
      in r # delete_each rt this stackIds (snd r))"

fun succeeded :: "(fault + (string, jsval) Either) \<times> 'w env \<Rightarrow> bool" where
  "succeeded (Inr (Success v), e) = True"
| "succeeded (r, e) = False"

text \<open>Trailing slashes stripped, as the spec words it.\<close>

definition strip_trailing_slashes :: "string \<Rightarrow> string" where
  "strip_trailing_slashes s = rev (dropWhile (\<lambda>c. c = CHR ''/'') (rev s))"

text \<open>
  The error message as the spec words it: for a failed transport call its message or
  \<^verbatim>\<open>"Unknown error"\<close>; for a response the trimmed string body, or the non-empty
  \<^verbatim>\<open>message\<close> and \<^verbatim>\<open>details\<close> of an object body joined with \<^verbatim>\<open>": "\<close> (the serialized
  body when both are empty), or \<^verbatim>\<open>"Unknown error"\<close>, after the status and \<^verbatim>\<open>" - "\<close>.
\<close>

definition spec_body_message :: "(jsval \<Rightarrow> string) \<Rightarrow> jsval \<Rightarrow> string" where
  "spec_body_message stringify d =
     (case d of
        JStr s \<Rightarrow> js_trim s
      | JArr xs \<Rightarrow> stringify d
      | JObj kvs \<Rightarrow>
          (let parts = filter (\<lambda>p. p \<noteq> [])
                 (map (\<lambda>k. case map_of kvs k of Some (JStr p) \<Rightarrow> p | _ \<Rightarrow> [])
                    [''message'', ''details''])
           in if parts = [] then stringify d else join_strings '': '' parts)
      | _ \<Rightarrow> ''Unknown error'')"

definition spec_error_message :: "(jsval \<Rightarrow> string) \<Rightarrow> thrown + AxiosResponse \<Rightarrow> string" where
  "spec_error_message stringify out =
     (case out of
        Inl ThrownFalsy \<Rightarrow> ''Unknown error''
      | Inl (ThrownTruthy None str) \<Rightarrow> ''Unknown error''
      | Inl (ThrownTruthy (Some m) str) \<Rightarrow> (if m \<noteq> [] then m else ''Unknown error'')
      | Inr response \<Rightarrow>
          string_of_int (status response) @ '' - '' @ spec_body_message stringify (body response))"

text \<open>
  A status joined with a message as \<^verbatim>\<open>_.compact([status, msg]).join(" - ")\<close> does it
  for a status that is not 0: an empty message leaves the status alone.
\<close>

definition status_prefixed :: "int \<Rightarrow> string \<Rightarrow> string" where
  "status_prefixed st msg =
     (if msg = [] then string_of_int st else string_of_int st @ '' - '' @ msg)"

text \<open>
  An error body as the remote API sends it: not \<^verbatim>\<open>null\<close>, and the \<^verbatim>\<open>message\<close> and
  \<^verbatim>\<open>details\<close> of an object are strings when they are there.
\<close>

definition typed_error_body :: "jsval \<Rightarrow> bool" where
  "typed_error_body d =
     (case d of
        JNull \<Rightarrow> False
      | JObj kvs \<Rightarrow>
          list_all (\<lambda>k. case map_of kvs k of None \<Rightarrow> True | Some (JStr s) \<Rightarrow> True | Some v \<Rightarrow> False)
            [''message'', ''details'']
      | _ \<Rightarrow> True)"

section \<open>A scripted server\<close>

text \<open>
  A world for concrete runs: the list of the outcomes still to come. Each call takes
  the next one; a call on the empty list is rejected.
\<close>

definition scripted :: "(thrown + AxiosResponse) list runtime" where
  "scripted =
     \<lparr>axios = (\<lambda>cfg w. case w of [] \<Rightarrow> (Inl ThrownFalsy, []) | r # rs \<Rightarrow> (r, rs)),
      JSON_stringify = (\<lambda>v. ''{}'')\<rparr>"

definition script :: "(thrown + AxiosResponse) list \<Rightarrow> (thrown + AxiosResponse) list env" where
  "script rs = \<lparr>server = rs, sent = []\<rparr>"

definition respond :: "int \<Rightarrow> jsval \<Rightarrow> thrown + AxiosResponse" where
  "respond st d = Inr \<lparr>status = st, body = d\<rparr>"

definition api0 :: PortainerApi where
  "api0 = new_PortainerApi \<lparr>baseUrl = ''http://h/''\<rparr> None"

definition api1 :: PortainerApi where
  "api1 = new_PortainerApi \<lparr>baseUrl = ''http://h/''\<rparr> (Some (Logged (JNum 1) (JStr ''old'')))"

definition opts0 :: LoginOptions where
  "opts0 = \<lparr>username = ''u'', password = ''p'', endpointName = ''local''\<rparr>"

section \<open>Facts about the model\<close>

lemmas run_simps = request_def axios_call_def scripted_def script_def respond_def
  success_status_def response_message_def js_join_def compact_def js_trim_def
  string_of_int_def digit_char_def request_config_def getUrl_def startsWith_def
  api0_def api1_def new_PortainerApi_def no_request_def is_space_def delete_path_def
  delete_config_def auth_request_def

lemmas login_run_simps = login_def resolve_endpoint_def opts0_def

text \<open>Every call of \<^verbatim>\<open>request\<close> makes exactly one HTTP call, with the configuration above.\<close>

lemma request_sent:
  "sent (snd (request rt this m p b t e)) = sent e @ [request_config this m p b t]"
  by (auto simp: request_def axios_call_def Let_def split: prod.splits sum.splits)

lemma get_prop_defined: "v \<noteq> JNull \<Longrightarrow> v \<noteq> JUndefined \<Longrightarrow> \<exists>w. get_prop v k = Inr w"
  by (cases v) auto

lemma strict_eq_num: "js_strict_eq v (JNum n) = (v = JNum n)"
  by (cases v) auto

lemma strict_eq_str: "js_strict_eq v (JStr s) = (v = JStr s)"
  by (cases v) auto

lemma js_filter_total:
  assumes "\<forall>x \<in> set xs. \<exists>b. p x = Inr b"
  shows "js_filter p xs = Inr (filter (\<lambda>x. p x = Inr True) xs)"
  using assms by (induction xs) auto

lemma succeeded_iff: "succeeded r = (\<exists>v. fst r = Inr (Success v))"
  by (cases r rule: succeeded.cases) auto

section \<open>Stacks\<close>

text \<open>
  C1. On a client that is logged in on endpoint \<open>n\<close>, when the listing returns the
  stacks \<open>stacks\<close> (objects), \<^verbatim>\<open>getStacks\<close> returns \<^verbatim>\<open>Success\<close> with exactly the stacks
  whose \<^verbatim>\<open>EndpointId\<close> is the number \<open>n\<close>, in the order of the listing: a sublist of it.
  The test is equality of the value, so the endpoint 11 does not pass for the endpoint 1.
\<close>

theorem getStacks_filter:
  assumes logged: "state this = Logged (JNum n) tok"
    and listing: "request rt this GET ''/stacks'' no_request JUndefined e =
                    (Inr (Success (JArr stacks)), e')"
    and objects: "list_all (\<lambda>s. s \<noteq> JNull \<and> s \<noteq> JUndefined) stacks"
  shows "getStacks rt this e =
           (Inr (Success (JArr (filter (\<lambda>s. get_prop s ''EndpointId'' = Inr (JNum n)) stacks))),
            e')
         \<and> subseq (filter (\<lambda>s. get_prop s ''EndpointId'' = Inr (JNum n)) stacks) stacks"
proof -
  let ?p = "\<lambda>stack. case get_prop stack ''EndpointId'' of
                       Inl f \<Rightarrow> Inl f
                     | Inr v \<Rightarrow> Inr (js_strict_eq v (JNum n))"
  have "\<forall>s \<in> set stacks. \<exists>b. ?p s = Inr b"
  proof
    fix s assume "s \<in> set stacks"
    with objects have "s \<noteq> JNull" "s \<noteq> JUndefined" by (auto simp: list_all_iff)
    then obtain w where "get_prop s ''EndpointId'' = Inr w" using get_prop_defined by blast
    then show "\<exists>b. ?p s = Inr b" by simp
  qed
  then have "js_filter ?p stacks = Inr (filter (\<lambda>s. ?p s = Inr True) stacks)"
    by (rule js_filter_total)
  moreover have "(\<lambda>s. ?p s = Inr True) = (\<lambda>s. get_prop s ''EndpointId'' = Inr (JNum n))"
    by (auto simp: fun_eq_iff strict_eq_num split: sum.splits)
  ultimately have f: "js_filter ?p stacks =
      Inr (filter (\<lambda>s. get_prop s ''EndpointId'' = Inr (JNum n)) stacks)"
    by simp
  have eid: "get_endpointId this = Inr (JNum n)"
    using logged by (simp add: get_endpointId_def getLoggedInData_def)
  have "getStacks rt this e =
      (Inr (Success (JArr (filter (\<lambda>s. get_prop s ''EndpointId'' = Inr (JNum n)) stacks))), e')"
    unfolding getStacks_def listing using eid f by simp
  then show ?thesis by simp
qed

theorem getStacks_filter_witness:
  "getStacks scripted api1
     (script [respond 200 (JArr [JObj [(''Id'', JNum 7), (''EndpointId'', JNum 1)],
                                 JObj [(''Id'', JNum 8), (''EndpointId'', JNum 11)],
                                 JObj [(''Id'', JNum 9), (''EndpointId'', JStr ''1'')]])]) =
   (Inr (Success (JArr [JObj [(''Id'', JNum 7), (''EndpointId'', JNum 1)]])),
    \<lparr>server = [],
     sent = [\<lparr>method = GET, url = ''http://h/api/stacks'',
              headers = [(''Authorization'', ''Bearer old'')],
              data = JUndefined, params = JUndefined\<rparr>]\<rparr>)"
proof -
  let ?stacks = "[JObj [(''Id'', JNum 7), (''EndpointId'', JNum 1)],
                  JObj [(''Id'', JNum 8), (''EndpointId'', JNum 11)],
                  JObj [(''Id'', JNum 9), (''EndpointId'', JStr ''1'')]]"
  let ?e' = "\<lparr>server = [],
     sent = [\<lparr>method = GET, url = ''http://h/api/stacks'',
              headers = [(''Authorization'', ''Bearer old'')],
              data = JUndefined, params = JUndefined\<rparr>]\<rparr>"
  have logged: "state api1 = Logged (JNum 1) (JStr ''old'')"
    by (simp add: api1_def new_PortainerApi_def)
  have listing: "request scripted api1 GET ''/stacks'' no_request JUndefined
      (script [respond 200 (JArr ?stacks)]) = (Inr (Success (JArr ?stacks)), ?e')"
    by (simp add: run_simps)
  have objects: "list_all (\<lambda>s. s \<noteq> JNull \<and> s \<noteq> JUndefined) ?stacks"
    by simp
  show ?thesis
    using getStacks_filter [OF logged listing objects] by simp
qed

text \<open>The loop against the run that never stops, by induction on the ids.\<close>

lemma deleteStacks_result:
  "deleteStacks rt this ids e =
     (case dropWhile succeeded (delete_each rt this ids e) of
        [] \<Rightarrow> (Inr (Success JUndefined), last (e # map snd (delete_each rt this ids e)))
      | r # rs \<Rightarrow> r)"
proof (induction ids arbitrary: e)
  case Nil
  show ?case by simp
next
  case (Cons i ids)
  obtain r e' where r: "request rt this DELETE (delete_path i) no_request JUndefined e = (r, e')"
    by (cases "request rt this DELETE (delete_path i) no_request JUndefined e")
  have each: "delete_each rt this (i # ids) e = (r, e') # delete_each rt this ids e'"
    using r by (simp add: Let_def)
  show ?case
  proof (cases "succeeded (r, e')")
    case True
    then obtain v where v: "r = Inr (Success v)" by (auto simp: succeeded_iff)
    have "deleteStacks rt this (i # ids) e = deleteStacks rt this ids e'"
      using r v by simp
    moreover have "dropWhile succeeded (delete_each rt this (i # ids) e) =
        dropWhile succeeded (delete_each rt this ids e')"
      using True each by simp
    moreover have "last (e # map snd (delete_each rt this (i # ids) e)) =
        last (e' # map snd (delete_each rt this ids e'))"
      using each by simp
    ultimately show ?thesis using Cons.IH [of e'] by (simp only:)
  next
    case False
    then have "dropWhile succeeded (delete_each rt this (i # ids) e) =
        (r, e') # delete_each rt this ids e'"
      using each by simp
    moreover have "deleteStacks rt this (i # ids) e = (r, e')"
    proof (cases r)
      case (Inl f)
      then show ?thesis using r by simp
    next
      case (Inr res)
      with False have "isError res" by (cases res) auto
      then show ?thesis using r Inr by simp
    qed
    ultimately show ?thesis by (simp only: list.case)
  qed
qed

lemma deleteStacks_sent:
  "sent (snd (deleteStacks rt this ids e)) =
     sent e @ map (delete_config this)
       (take (Suc (length (takeWhile succeeded (delete_each rt this ids e)))) ids)"
proof (induction ids arbitrary: e)
  case Nil
  show ?case by simp
next
  case (Cons i ids)
  obtain r e' where r: "request rt this DELETE (delete_path i) no_request JUndefined e = (r, e')"
    by (cases "request rt this DELETE (delete_path i) no_request JUndefined e")
  have s: "sent e' = sent e @ [delete_config this i]"
    using request_sent [of rt this DELETE "delete_path i" no_request JUndefined e] r
    by (simp add: delete_config_def)
  show ?case
  proof (cases "succeeded (r, e')")
    case True
    then obtain v where "r = Inr (Success v)" by (auto simp: succeeded_iff)
    with r s Cons.IH [of e'] show ?thesis by (simp add: Let_def)
  next
    case False
    then show ?thesis using r s
      by (cases r; simp add: Let_def; (rename_tac res, case_tac res; simp)?)
  qed
qed

lemma delete_config_fields:
  "method (delete_config this i) = DELETE \<and>
   url (delete_config this i) = apiUrl this @ ''/stacks/'' @ string_of_int i"
  by (simp add: delete_config_def request_config_def getUrl_def delete_path_def startsWith_def
      Let_def)

text \<open>
  C2. \<^verbatim>\<open>deleteStacks\<close> against the run that deletes every id in order: its result is
  the first result of that run that is not a \<^verbatim>\<open>Success\<close>, with the world as that
  request left it, and \<^verbatim>\<open>Success\<close> after the last request when there is none. The
  requests it has made are the \<^verbatim>\<open>DELETE\<close> of each id up to and including that first
  failure, one per id and in the order of the list; no later id is requested.
\<close>

theorem deleteStacks_stops_at_first_failure:
  "deleteStacks rt this ids e =
     (case dropWhile succeeded (delete_each rt this ids e) of
        [] \<Rightarrow> (Inr (Success JUndefined), last (e # map snd (delete_each rt this ids e)))
      | r # rs \<Rightarrow> r)
   \<and> sent (snd (deleteStacks rt this ids e)) =
       sent e @ map (delete_config this)
         (take (Suc (length (takeWhile succeeded (delete_each rt this ids e)))) ids)
   \<and> map method (map (delete_config this) ids) = map (\<lambda>i. DELETE) ids
   \<and> map url (map (delete_config this) ids) =
       map (\<lambda>i. apiUrl this @ ''/stacks/'' @ string_of_int i) ids"
  using deleteStacks_result [of rt this ids e] deleteStacks_sent [of rt this ids e]
  by (simp add: delete_config_fields)

theorem deleteStacks_stops_at_first_failure_witness:
  "deleteStacks scripted api1 [1, 2, 3]
     (script [respond 204 (JStr []),
              respond 404 (JObj [(''message'', JStr ''Not found'')]),
              respond 204 (JStr [])]) =
   (Inr (Error ''404 - Not found''),
    \<lparr>server = [respond 204 (JStr [])],
     sent = [\<lparr>method = DELETE, url = ''http://h/api/stacks/1'',
              headers = [(''Authorization'', ''Bearer old'')],
              data = JUndefined, params = JUndefined\<rparr>,
             \<lparr>method = DELETE, url = ''http://h/api/stacks/2'',
              headers = [(''Authorization'', ''Bearer old'')],
              data = JUndefined, params = JUndefined\<rparr>]\<rparr>)"
proof -
  let ?e = "script [respond 204 (JStr []),
              respond 404 (JObj [(''message'', JStr ''Not found'')]),
              respond 204 (JStr [])]"
  have each: "dropWhile succeeded (delete_each scripted api1 [1, 2, 3] ?e) =
    [(Inr (Error ''404 - Not found''),
    \<lparr>server = [respond 204 (JStr [])],
     sent = [\<lparr>method = DELETE, url = ''http://h/api/stacks/1'',
              headers = [(''Authorization'', ''Bearer old'')],
              data = JUndefined, params = JUndefined\<rparr>,
             \<lparr>method = DELETE, url = ''http://h/api/stacks/2'',
              headers = [(''Authorization'', ''Bearer old'')],
              data = JUndefined, params = JUndefined\<rparr>]\<rparr>),
     (Inr (Success (JStr [])),
    \<lparr>server = [],
     sent = [\<lparr>method = DELETE, url = ''http://h/api/stacks/1'',
              headers = [(''Authorization'', ''Bearer old'')],
              data = JUndefined, params = JUndefined\<rparr>,
             \<lparr>method = DELETE, url = ''http://h/api/stacks/2'',
              headers = [(''Authorization'', ''Bearer old'')],
              data = JUndefined, params = JUndefined\<rparr>,
             \<lparr>method = DELETE, url = ''http://h/api/stacks/3'',
              headers = [(''Authorization'', ''Bearer old'')],
              data = JUndefined, params = JUndefined\<rparr>]\<rparr>)]"
    by (simp add: run_simps Let_def)
  show ?thesis
    using deleteStacks_stops_at_first_failure [of scripted api1 "[1, 2, 3]" ?e]
    unfolding each by simp
qed

text \<open>
  C10. On the empty list \<^verbatim>\<open>deleteStacks\<close> returns \<^verbatim>\<open>Success\<close> and leaves the world
  and the list of the calls made as they were: no request is issued.
\<close>

theorem deleteStacks_empty:
  "deleteStacks rt this [] e = (Inr (Success JUndefined), e)
   \<and> sent (snd (deleteStacks rt this [] e)) = sent e"
  by simp

section \<open>Session\<close>

text \<open>
  C8. After \<^verbatim>\<open>setSession\<close> with the token \<open>t\<close> and the endpoint id \<open>i\<close> the getters
  \<^verbatim>\<open>token\<close> and \<^verbatim>\<open>endpointId\<close> of the instance return \<open>t\<close> and \<open>i\<close>; after
  \<^verbatim>\<open>clearSession\<close> both throw the not-logged-in fault, also when a session had been
  set before.
\<close>

theorem session_roundtrip:
  assumes "this < length h"
  shows "get_token (setSession h this \<lparr>token = t, endpointId = i\<rparr> ! this) = Inr t
       \<and> get_endpointId (setSession h this \<lparr>token = t, endpointId = i\<rparr> ! this) = Inr i
       \<and> get_token (clearSession h this ! this) = Inl NotLoggedIn
       \<and> get_endpointId (clearSession h this ! this) = Inl NotLoggedIn
       \<and> get_token (clearSession (setSession h this \<lparr>token = t, endpointId = i\<rparr>) this ! this)
           = Inl NotLoggedIn
       \<and> get_endpointId (clearSession (setSession h this \<lparr>token = t, endpointId = i\<rparr>) this ! this)
           = Inl NotLoggedIn"
  using assms
  by (simp add: setSession_def clearSession_def get_token_def get_endpointId_def
      getLoggedInData_def)

theorem session_roundtrip_witness:
  "get_token (setSession [api0] 0 \<lparr>token = JStr ''T'', endpointId = JNum 7\<rparr> ! 0) = Inr (JStr ''T'')
   \<and> get_endpointId (setSession [api0] 0 \<lparr>token = JStr ''T'', endpointId = JNum 7\<rparr> ! 0)
       = Inr (JNum 7)
   \<and> get_token (clearSession [api1] 0 ! 0) = Inl NotLoggedIn
   \<and> get_endpointId (clearSession [api1] 0 ! 0) = Inl NotLoggedIn"
proof -
  have l: "(0::nat) < length [api0]" "(0::nat) < length [api1]" by simp_all
  show ?thesis
    using session_roundtrip [OF l(1), of "JStr ''T''" "JNum 7"]
      session_roundtrip [OF l(2), of "JStr ''T''" "JNum 7"]
    by simp
qed

section \<open>Login\<close>

lemma js_find_first:
  assumes "list_all (\<lambda>x. x \<noteq> JNull \<and> x \<noteq> JUndefined) es"
  shows "js_find (\<lambda>endpoint. case get_prop endpoint k of
                      Inl f \<Rightarrow> Inl f
                    | Inr n \<Rightarrow> Inr (js_strict_eq n (JStr name))) es =
         Inr (case find (\<lambda>x. get_prop x k = Inr (JStr name)) es of
                None \<Rightarrow> JUndefined | Some x \<Rightarrow> x)"
  using assms
proof (induction es)
  case Nil
  show ?case by simp
next
  case (Cons x es)
  then have "x \<noteq> JNull" "x \<noteq> JUndefined" by simp_all
  then obtain w where w: "get_prop x k = Inr w" using get_prop_defined by blast
  with Cons show ?case by (simp add: strict_eq_str)
qed

lemma named_truthy: "get_prop x k = Inr (JStr s) \<Longrightarrow> truthy x"
  by (cases x) auto

lemma resolve_not_found:
  assumes "list_all (\<lambda>x. x \<noteq> JNull \<and> x \<noteq> JUndefined) es"
    and "find (\<lambda>x. get_prop x ''Name'' = Inr (JStr name)) es = None"
  shows "resolve_endpoint this name tok (JArr es) =
     Inr (Error (''Cannot find endpoint '' @ [CHR 0x27] @ name @ [CHR 0x27]))"
  using assms by (simp add: resolve_endpoint_def js_find_first)

lemma resolve_found:
  assumes "list_all (\<lambda>x. x \<noteq> JNull \<and> x \<noteq> JUndefined) es"
    and "find (\<lambda>x. get_prop x ''Name'' = Inr (JStr name)) es = Some ep"
    and "get_prop ep ''Id'' = Inr eid"
  shows "resolve_endpoint this name tok (JArr es) =
     Inr (Success (new_PortainerApi (options this) (Some (Logged eid tok))))"
proof -
  from assms(2) have "get_prop ep ''Name'' = Inr (JStr name)"
    by (auto simp: find_Some_iff)
  then have "truthy ep" by (rule named_truthy)
  then show ?thesis using assms by (simp add: resolve_endpoint_def js_find_first)
qed

lemma login_auth_error:
  assumes "request rt (h ! this) POST ''/auth'' (auth_request opts) JUndefined e = (Inr (Error msg), e1)"
  shows "login rt h this opts e = (Inr (Error msg), h, e1)"
  using assms by (simp add: login_def)

lemma login_endpoints:
  assumes "request rt (h ! this) POST ''/auth'' (auth_request opts) JUndefined e = (Inr (Success d), e1)"
    and "get_prop d ''jwt'' = Inr tok"
    and "request rt (h ! this) GET ''/endpoints'' no_request tok e1 = (Inr (Success eps), e2)"
  shows "login rt h this opts e =
     (case resolve_endpoint (h ! this) (endpointName opts) tok eps of
        Inl f \<Rightarrow> (Inl f, h, e2)
      | Inr (Error msg) \<Rightarrow> (Inr (Error msg), h, e2)
      | Inr (Success newApi) \<Rightarrow> (Inr (Success (length h)), h @ [newApi], e2))"
  using assms by (simp add: login_def)

lemma login_sent_endpoints:
  assumes "request rt (h ! this) POST ''/auth'' (auth_request opts) JUndefined e = (Inr (Success d), e1)"
    and "get_prop d ''jwt'' = Inr tok"
  shows "sent (snd (snd (login rt h this opts e))) =
     sent e @ [request_config (h ! this) POST ''/auth'' (auth_request opts) JUndefined,
               request_config (h ! this) GET ''/endpoints'' no_request tok]"
proof -
  obtain r2 e2 where r2: "request rt (h ! this) GET ''/endpoints'' no_request tok e1 = (r2, e2)"
    by (cases "request rt (h ! this) GET ''/endpoints'' no_request tok e1")
  have s1: "sent e1 = sent e @ [request_config (h ! this) POST ''/auth'' (auth_request opts) JUndefined]"
    using request_sent [of rt "h ! this" POST "''/auth''" "auth_request opts" JUndefined e] assms(1) by simp
  have s2: "sent e2 = sent e1 @ [request_config (h ! this) GET ''/endpoints'' no_request tok]"
    using request_sent [of rt "h ! this" GET "''/endpoints''" no_request tok e1] r2 by simp
  have "snd (snd (login rt h this opts e)) = e2"
    using assms r2 by (auto simp: login_def split: sum.splits Either.splits)
  then show ?thesis using s1 s2 by simp
qed

lemma endpoints_config:
  assumes "truthy tok"
  shows "request_config this GET ''/endpoints'' no_request tok =
    \<lparr>method = GET, url = apiUrl this @ ''/endpoints'',
     headers = [(''Authorization'', ''Bearer '' @ js_toString tok)],
     data = JUndefined, params = JUndefined\<rparr>"
  using assms by (simp add: request_config_def getUrl_def startsWith_def no_request_def)

lemma endpoints_config_fallback:
  assumes "\<not> truthy tok"
  shows "request_config this GET ''/endpoints'' no_request tok =
    \<lparr>method = GET, url = apiUrl this @ ''/endpoints'',
     headers = (case state this of
                  NotLogged \<Rightarrow> []
                | Logged eid t \<Rightarrow>
                    if truthy t then [(''Authorization'', ''Bearer '' @ js_toString t)] else []),
     data = JUndefined, params = JUndefined\<rparr>"
  using assms
  by (simp add: request_config_def getUrl_def startsWith_def no_request_def split: State.splits)

text \<open>
  C3. When the \<^verbatim>\<open>POST\<close> to \<^verbatim>\<open>/auth\<close> gives an error, \<^verbatim>\<open>login\<close> returns that error and the
  only request made is that \<^verbatim>\<open>POST\<close>: no \<^verbatim>\<open>GET /endpoints\<close>. When it succeeds with a
  truthy \<^verbatim>\<open>jwt\<close> (a non-empty string), the next request is the \<^verbatim>\<open>GET\<close> of
  \<^verbatim>\<open>/endpoints\<close> with that token as bearer token. When it succeeds with a falsy
  \<^verbatim>\<open>jwt\<close> (the empty string, or none), the \<^verbatim>\<open>GET\<close> of \<^verbatim>\<open>/endpoints\<close> is made all the
  same: with the session token of the instance as bearer token when the instance is
  logged with a truthy token, and with no \<^verbatim>\<open>Authorization\<close> header otherwise.
\<close>

theorem login_auth_failure_and_bearer:
  "(request rt (h ! this) POST ''/auth'' (auth_request opts) JUndefined e = (Inr (Error msg), e1)
      \<longrightarrow> login rt h this opts e = (Inr (Error msg), h, e1)
          \<and> sent e1 = sent e @ [request_config (h ! this) POST ''/auth'' (auth_request opts) JUndefined]
          \<and> method (request_config (h ! this) POST ''/auth'' (auth_request opts) JUndefined) = POST
          \<and> url (request_config (h ! this) POST ''/auth'' (auth_request opts) JUndefined)
              = apiUrl (h ! this) @ ''/auth'')
   \<and> (request rt (h ! this) POST ''/auth'' (auth_request opts) JUndefined e = (Inr (Success d), e1)
        \<and> get_prop d ''jwt'' = Inr tok \<and> truthy tok
      \<longrightarrow> sent (snd (snd (login rt h this opts e))) =
            sent e @ [request_config (h ! this) POST ''/auth'' (auth_request opts) JUndefined,
                      \<lparr>method = GET, url = apiUrl (h ! this) @ ''/endpoints'',
                       headers = [(''Authorization'', ''Bearer '' @ js_toString tok)],
                       data = JUndefined, params = JUndefined\<rparr>])
   \<and> (request rt (h ! this) POST ''/auth'' (auth_request opts) JUndefined e = (Inr (Success d), e1)
        \<and> get_prop d ''jwt'' = Inr tok \<and> \<not> truthy tok
      \<longrightarrow> sent (snd (snd (login rt h this opts e))) =
            sent e @ [request_config (h ! this) POST ''/auth'' (auth_request opts) JUndefined,
                      \<lparr>method = GET, url = apiUrl (h ! this) @ ''/endpoints'',
                       headers =
                         (case state (h ! this) of
                            NotLogged \<Rightarrow> []
                          | Logged eid t \<Rightarrow>
                              if truthy t then [(''Authorization'', ''Bearer '' @ js_toString t)]
                              else []),
                       data = JUndefined, params = JUndefined\<rparr>])"
proof (intro conjI impI)
  assume a: "request rt (h ! this) POST ''/auth'' (auth_request opts) JUndefined e = (Inr (Error msg), e1)"
  then show "login rt h this opts e = (Inr (Error msg), h, e1)" by (rule login_auth_error)
  show "sent e1 = sent e @ [request_config (h ! this) POST ''/auth'' (auth_request opts) JUndefined]"
    using request_sent [of rt "h ! this" POST "''/auth''" "auth_request opts" JUndefined e] a by simp
next
  show "method (request_config (h ! this) POST ''/auth'' (auth_request opts) JUndefined) = POST"
    by (simp add: request_config_def Let_def)
  show "url (request_config (h ! this) POST ''/auth'' (auth_request opts) JUndefined)
              = apiUrl (h ! this) @ ''/auth''"
    by (simp add: request_config_def Let_def getUrl_def startsWith_def)
next
  assume "request rt (h ! this) POST ''/auth'' (auth_request opts) JUndefined e = (Inr (Success d), e1)
        \<and> get_prop d ''jwt'' = Inr tok \<and> truthy tok"
  then show "sent (snd (snd (login rt h this opts e))) =
            sent e @ [request_config (h ! this) POST ''/auth'' (auth_request opts) JUndefined,
                      \<lparr>method = GET, url = apiUrl (h ! this) @ ''/endpoints'',
                       headers = [(''Authorization'', ''Bearer '' @ js_toString tok)],
                       data = JUndefined, params = JUndefined\<rparr>]"
    using login_sent_endpoints [of rt h this opts e d e1 tok] endpoints_config [of tok "h ! this"]
    by simp
next
  assume "request rt (h ! this) POST ''/auth'' (auth_request opts) JUndefined e = (Inr (Success d), e1)
        \<and> get_prop d ''jwt'' = Inr tok \<and> \<not> truthy tok"
  then show "sent (snd (snd (login rt h this opts e))) =
            sent e @ [request_config (h ! this) POST ''/auth'' (auth_request opts) JUndefined,
                      \<lparr>method = GET, url = apiUrl (h ! this) @ ''/endpoints'',
                       headers =
                         (case state (h ! this) of
                            NotLogged \<Rightarrow> []
                          | Logged eid t \<Rightarrow>
                              if truthy t then [(''Authorization'', ''Bearer '' @ js_toString t)]
                              else []),
                       data = JUndefined, params = JUndefined\<rparr>]"
    using login_sent_endpoints [of rt h this opts e d e1 tok]
      endpoints_config_fallback [of tok "h ! this"]
    by simp
qed

theorem login_auth_failure_and_bearer_witness:
  "login scripted [api0] 0 opts0
      (script [respond 401 (JObj [(''message'', JStr ''Invalid credentials'')]), respond 200 (JArr [])])
    = (Inr (Error ''401 - Invalid credentials''), [api0],
       \<lparr>server = [respond 200 (JArr [])],
        sent = [request_config api0 POST ''/auth'' (auth_request opts0) JUndefined]\<rparr>)
   \<and> sent (snd (snd (login scripted [api0] 0 opts0
        (script [respond 200 (JObj [(''jwt'', JStr ''T'')]), respond 200 (JArr [])])))) =
      [request_config api0 POST ''/auth'' (auth_request opts0) JUndefined,
       \<lparr>method = GET, url = ''http://h/api/endpoints'',
        headers = [(''Authorization'', ''Bearer T'')],
        data = JUndefined, params = JUndefined\<rparr>]
   \<and> sent (snd (snd (login scripted [api1] 0 opts0
        (script [respond 200 (JObj [(''jwt'', JStr [])]), respond 200 (JArr [])])))) =
      [request_config api1 POST ''/auth'' (auth_request opts0) JUndefined,
       \<lparr>method = GET, url = ''http://h/api/endpoints'',
        headers = [(''Authorization'', ''Bearer old'')],
        data = JUndefined, params = JUndefined\<rparr>]
   \<and> sent (snd (snd (login scripted [api0] 0 opts0
        (script [respond 200 (JObj [(''jwt'', JStr [])]), respond 200 (JArr [])])))) =
      [request_config api0 POST ''/auth'' (auth_request opts0) JUndefined,
       \<lparr>method = GET, url = ''http://h/api/endpoints'',
        headers = [], data = JUndefined, params = JUndefined\<rparr>]"
proof -
  let ?e = "script [respond 401 (JObj [(''message'', JStr ''Invalid credentials'')]), respond 200 (JArr [])]"
  let ?e1 = "\<lparr>server = [respond 200 (JArr [])],
        sent = [request_config api0 POST ''/auth'' (auth_request opts0) JUndefined]\<rparr>"
  let ?f = "script [respond 200 (JObj [(''jwt'', JStr ''T'')]), respond 200 (JArr [])]"
  have a: "request scripted ([api0] ! 0) POST ''/auth'' (auth_request opts0) JUndefined ?e =
      (Inr (Error ''401 - Invalid credentials''), ?e1)"
    by (simp add: run_simps)
  have b: "request scripted ([api0] ! 0) POST ''/auth'' (auth_request opts0) JUndefined ?f =
      (Inr (Success (JObj [(''jwt'', JStr ''T'')])),
       \<lparr>server = [respond 200 (JArr [])],
        sent = [request_config api0 POST ''/auth'' (auth_request opts0) JUndefined]\<rparr>)"
    by (simp add: run_simps)
  have c: "get_prop (JObj [(''jwt'', JStr ''T'')]) ''jwt'' = Inr (JStr ''T'')" "truthy (JStr ''T'')"
    by simp_all
  have u: "apiUrl api0 = ''http://h/api''" "apiUrl api1 = ''http://h/api''"
    "state api0 = NotLogged" "state api1 = Logged (JNum 1) (JStr ''old'')"
    by (simp_all add: api0_def api1_def new_PortainerApi_def)
  let ?g = "script [respond 200 (JObj [(''jwt'', JStr [])]), respond 200 (JArr [])]"
  have b0: "request scripted ([api0] ! 0) POST ''/auth'' (auth_request opts0) JUndefined ?g =
      (Inr (Success (JObj [(''jwt'', JStr [])])),
       \<lparr>server = [respond 200 (JArr [])],
        sent = [request_config api0 POST ''/auth'' (auth_request opts0) JUndefined]\<rparr>)"
    by (simp add: run_simps)
  have b1: "request scripted ([api1] ! 0) POST ''/auth'' (auth_request opts0) JUndefined ?g =
      (Inr (Success (JObj [(''jwt'', JStr [])])),
       \<lparr>server = [respond 200 (JArr [])],
        sent = [request_config api1 POST ''/auth'' (auth_request opts0) JUndefined]\<rparr>)"
    by (simp add: run_simps)
  have c0: "get_prop (JObj [(''jwt'', JStr [])]) ''jwt'' = Inr (JStr [])" "\<not> truthy (JStr [])"
    by simp_all
  note rem = login_auth_failure_and_bearer [of scripted _ 0 opts0]
  have 1: "login scripted [api0] 0 opts0 ?e =
      (Inr (Error ''401 - Invalid credentials''), [api0], ?e1)"
    using rem [THEN conjunct1, rule_format, OF a] by simp
  have 2: "sent (snd (snd (login scripted [api0] 0 opts0 ?f))) =
      [request_config api0 POST ''/auth'' (auth_request opts0) JUndefined,
       \<lparr>method = GET, url = ''http://h/api/endpoints'',
        headers = [(''Authorization'', ''Bearer T'')],
        data = JUndefined, params = JUndefined\<rparr>]"
    using rem [THEN conjunct2, THEN conjunct1, rule_format, OF conjI [OF b conjI [OF c]]] u
    by (simp add: script_def)
  have 3: "sent (snd (snd (login scripted [api1] 0 opts0 ?g))) =
      [request_config api1 POST ''/auth'' (auth_request opts0) JUndefined,
       \<lparr>method = GET, url = ''http://h/api/endpoints'',
        headers = [(''Authorization'', ''Bearer old'')],
        data = JUndefined, params = JUndefined\<rparr>]"
    using rem [THEN conjunct2, THEN conjunct2, rule_format, OF conjI [OF b1 conjI [OF c0]]] u
    by (simp add: script_def)
  have 4: "sent (snd (snd (login scripted [api0] 0 opts0 ?g))) =
      [request_config api0 POST ''/auth'' (auth_request opts0) JUndefined,
       \<lparr>method = GET, url = ''http://h/api/endpoints'',
        headers = [], data = JUndefined, params = JUndefined\<rparr>]"
    using rem [THEN conjunct2, THEN conjunct2, rule_format, OF conjI [OF b0 conjI [OF c0]]] u
    by (simp add: script_def)
  show ?thesis
    using 1 2 3 4 by (intro conjI)
qed

theorem login_empty_token_counterexample:
  "get_prop (JObj [(''jwt'', JStr [])]) ''jwt'' = Inr (JStr [])
   \<and> map (\<lambda>c. (method c, url c, headers c))
        (sent (snd (snd (login scripted [api1] 0 opts0
           (script [respond 200 (JObj [(''jwt'', JStr [])]), respond 200 (JArr [])]))))) =
      [(POST, ''http://h/api/auth'', [(''Authorization'', ''Bearer old'')]),
       (GET, ''http://h/api/endpoints'', [(''Authorization'', ''Bearer old'')])]
   \<and> map (\<lambda>c. (method c, url c, headers c))
        (sent (snd (snd (login scripted [api0] 0 opts0
           (script [respond 200 (JObj [(''jwt'', JStr [])]), respond 200 (JArr [])]))))) =
      [(POST, ''http://h/api/auth'', []),
       (GET, ''http://h/api/endpoints'', [])]"
  by (simp add: run_simps login_run_simps)

text \<open>
  C4. When both requests of \<^verbatim>\<open>login\<close> succeed and no endpoint of the list has the
  \<^verbatim>\<open>Name\<close> asked for, \<^verbatim>\<open>login\<close> returns the error \<^verbatim>\<open>Cannot find endpoint '<name>'\<close>
  with the name in it, and creates no instance.
\<close>

theorem login_endpoint_not_found:
  assumes auth: "request rt (h ! this) POST ''/auth'' (auth_request opts) JUndefined e =
                   (Inr (Success d), e1)"
    and jwt: "get_prop d ''jwt'' = Inr tok"
    and eps: "request rt (h ! this) GET ''/endpoints'' no_request tok e1 =
                (Inr (Success (JArr es)), e2)"
    and objects: "list_all (\<lambda>x. x \<noteq> JNull \<and> x \<noteq> JUndefined) es"
    and absent: "list_all (\<lambda>x. get_prop x ''Name'' \<noteq> Inr (JStr (endpointName opts))) es"
  shows "login rt h this opts e =
     (Inr (Error (''Cannot find endpoint '' @ [CHR 0x27] @ endpointName opts @ [CHR 0x27])), h, e2)"
proof -
  from absent have "find (\<lambda>x. get_prop x ''Name'' = Inr (JStr (endpointName opts))) es = None"
    by (simp add: find_None_iff list_all_iff)
  with objects have "resolve_endpoint (h ! this) (endpointName opts) tok (JArr es) =
      Inr (Error (''Cannot find endpoint '' @ [CHR 0x27] @ endpointName opts @ [CHR 0x27]))"
    by (rule resolve_not_found)
  then show ?thesis using login_endpoints [OF auth jwt eps] by simp
qed

theorem login_endpoint_not_found_witness:
  "login scripted [api0] 0 opts0
     (script [respond 200 (JObj [(''jwt'', JStr ''T'')]),
              respond 200 (JArr [JObj [(''Id'', JNum 7), (''Name'', JStr ''locals'')],
                                 JObj [(''Id'', JNum 8), (''Name'', JStr ''loca'')]])]) =
   (Inr (Error (''Cannot find endpoint '' @ [CHR 0x27] @ ''local'' @ [CHR 0x27])), [api0],
    \<lparr>server = [],
     sent = [request_config api0 POST ''/auth'' (auth_request opts0) JUndefined,
             request_config api0 GET ''/endpoints'' no_request (JStr ''T'')]\<rparr>)"
proof -
  let ?es = "[JObj [(''Id'', JNum 7), (''Name'', JStr ''locals'')],
              JObj [(''Id'', JNum 8), (''Name'', JStr ''loca'')]]"
  let ?e = "script [respond 200 (JObj [(''jwt'', JStr ''T'')]), respond 200 (JArr ?es)]"
  let ?e1 = "\<lparr>server = [respond 200 (JArr ?es)],
     sent = [request_config api0 POST ''/auth'' (auth_request opts0) JUndefined]\<rparr>"
  let ?e2 = "\<lparr>server = [],
     sent = [request_config api0 POST ''/auth'' (auth_request opts0) JUndefined,
             request_config api0 GET ''/endpoints'' no_request (JStr ''T'')]\<rparr>"
  have auth: "request scripted ([api0] ! 0) POST ''/auth'' (auth_request opts0) JUndefined ?e =
      (Inr (Success (JObj [(''jwt'', JStr ''T'')])), ?e1)"
    by (simp add: run_simps)
  have jwt: "get_prop (JObj [(''jwt'', JStr ''T'')]) ''jwt'' = Inr (JStr ''T'')"
    by simp
  have eps: "request scripted ([api0] ! 0) GET ''/endpoints'' no_request (JStr ''T'') ?e1 =
      (Inr (Success (JArr ?es)), ?e2)"
    by (simp add: run_simps)
  have objects: "list_all (\<lambda>x. x \<noteq> JNull \<and> x \<noteq> JUndefined) ?es"
    by simp
  have absent: "list_all (\<lambda>x. get_prop x ''Name'' \<noteq> Inr (JStr (endpointName opts0))) ?es"
    by (simp add: opts0_def)
  show ?thesis
    using login_endpoint_not_found [OF auth jwt eps objects absent] by (simp add: opts0_def)
qed

text \<open>
  C5. When both requests of \<^verbatim>\<open>login\<close> succeed and \<open>ep\<close> is the first endpoint of the
  list with the \<^verbatim>\<open>Name\<close> asked for, \<^verbatim>\<open>login\<close> returns \<^verbatim>\<open>Success\<close> with the reference of
  a new instance: its state is \<^verbatim>\<open>logged\<close> with the token of the \<^verbatim>\<open>/auth\<close> response and
  the \<^verbatim>\<open>Id\<close> of \<open>ep\<close>, its options are those of \<^verbatim>\<open>this\<close>. Every instance that existed
  before, \<^verbatim>\<open>this\<close> among them, is as it was.
\<close>

theorem login_success_new_instance:
  assumes alloc: "this < length h"
    and auth: "request rt (h ! this) POST ''/auth'' (auth_request opts) JUndefined e =
                   (Inr (Success d), e1)"
    and jwt: "get_prop d ''jwt'' = Inr tok"
    and eps: "request rt (h ! this) GET ''/endpoints'' no_request tok e1 =
                (Inr (Success (JArr es)), e2)"
    and objects: "list_all (\<lambda>x. x \<noteq> JNull \<and> x \<noteq> JUndefined) es"
    and found: "find (\<lambda>x. get_prop x ''Name'' = Inr (JStr (endpointName opts))) es = Some ep"
    and ident: "get_prop ep ''Id'' = Inr eid"
  shows "login rt h this opts e =
           (Inr (Success (length h)),
            h @ [new_PortainerApi (options (h ! this)) (Some (Logged eid tok))], e2)
         \<and> length h \<noteq> this
         \<and> (h @ [new_PortainerApi (options (h ! this)) (Some (Logged eid tok))]) ! this = h ! this
         \<and> state ((h @ [new_PortainerApi (options (h ! this)) (Some (Logged eid tok))]) ! length h)
             = Logged eid tok
         \<and> options ((h @ [new_PortainerApi (options (h ! this)) (Some (Logged eid tok))]) ! length h)
             = options (h ! this)
         \<and> apiUrl ((h @ [new_PortainerApi (options (h ! this)) (Some (Logged eid tok))]) ! length h)
             = apiUrl (new_PortainerApi (options (h ! this)) None)"
proof -
  let ?new = "new_PortainerApi (options (h ! this)) (Some (Logged eid tok))"
  have "resolve_endpoint (h ! this) (endpointName opts) tok (JArr es) = Inr (Success ?new)"
    using objects found ident by (rule resolve_found)
  then have l: "login rt h this opts e = (Inr (Success (length h)), h @ [?new], e2)"
    using login_endpoints [OF auth jwt eps] by simp
  have "(h @ [?new]) ! this = h ! this" using alloc by (simp add: nth_append)
  moreover have "state ?new = Logged eid tok" "options ?new = options (h ! this)"
    "apiUrl ?new = apiUrl (new_PortainerApi (options (h ! this)) None)"
    by (simp_all add: new_PortainerApi_def)
  ultimately show ?thesis using l alloc by simp
qed

theorem login_success_new_instance_witness:
  "login scripted [api0] 0 opts0
     (script [respond 200 (JObj [(''jwt'', JStr ''T'')]),
              respond 200 (JArr [JObj [(''Id'', JNum 6), (''Name'', JStr ''locals'')],
                                 JObj [(''Id'', JNum 7), (''Name'', JStr ''local'')]])]) =
   (Inr (Success 1),
    [\<lparr>options = \<lparr>baseUrl = ''http://h/''\<rparr>, apiUrl = ''http://h/api'', state = NotLogged\<rparr>,
     \<lparr>options = \<lparr>baseUrl = ''http://h/''\<rparr>, apiUrl = ''http://h/api'',
      state = Logged (JNum 7) (JStr ''T'')\<rparr>],
    \<lparr>server = [],
     sent = [request_config api0 POST ''/auth'' (auth_request opts0) JUndefined,
             request_config api0 GET ''/endpoints'' no_request (JStr ''T'')]\<rparr>)"
proof -
  let ?es = "[JObj [(''Id'', JNum 6), (''Name'', JStr ''locals'')],
              JObj [(''Id'', JNum 7), (''Name'', JStr ''local'')]]"
  let ?e = "script [respond 200 (JObj [(''jwt'', JStr ''T'')]), respond 200 (JArr ?es)]"
  let ?e1 = "\<lparr>server = [respond 200 (JArr ?es)],
     sent = [request_config api0 POST ''/auth'' (auth_request opts0) JUndefined]\<rparr>"
  let ?e2 = "\<lparr>server = [],
     sent = [request_config api0 POST ''/auth'' (auth_request opts0) JUndefined,
             request_config api0 GET ''/endpoints'' no_request (JStr ''T'')]\<rparr>"
  have alloc: "(0::nat) < length [api0]" by simp
  have auth: "request scripted ([api0] ! 0) POST ''/auth'' (auth_request opts0) JUndefined ?e =
      (Inr (Success (JObj [(''jwt'', JStr ''T'')])), ?e1)"
    by (simp add: run_simps)
  have jwt: "get_prop (JObj [(''jwt'', JStr ''T'')]) ''jwt'' = Inr (JStr ''T'')"
    by simp
  have eps: "request scripted ([api0] ! 0) GET ''/endpoints'' no_request (JStr ''T'') ?e1 =
      (Inr (Success (JArr ?es)), ?e2)"
    by (simp add: run_simps)
  have objects: "list_all (\<lambda>x. x \<noteq> JNull \<and> x \<noteq> JUndefined) ?es"
    by simp
  have found: "find (\<lambda>x. get_prop x ''Name'' = Inr (JStr (endpointName opts0))) ?es =
      Some (JObj [(''Id'', JNum 7), (''Name'', JStr ''local'')])"
    by (simp add: opts0_def)
  have ident: "get_prop (JObj [(''Id'', JNum 7), (''Name'', JStr ''local'')]) ''Id'' = Inr (JNum 7)"
    by simp
  show ?thesis
    using login_success_new_instance [OF alloc auth jwt eps objects found ident]
    by (simp add: api0_def new_PortainerApi_def)
qed

section \<open>The request wrapper\<close>

lemma status_boundaries:
  "success_status 200 \<and> success_status 299 \<and> success_status 304
   \<and> \<not> success_status 199 \<and> \<not> success_status 300 \<and> \<not> success_status 404"
  by (simp add: success_status_def)

lemma request_success_iff:
  assumes "axios rt (request_config this m p b t) (server e) = (Inr r, w')"
  shows "(fst (request rt this m p b t e) = Inr (Success v)) =
           (success_status (status r) \<and> v = body r)"
  using assms by (auto simp: request_def axios_call_def Let_def split: sum.splits)

lemma request_rejected:
  assumes "axios rt (request_config this m p b t) (server e) = (Inl err, w')"
  shows "fst (request rt this m p b t e) = Inr (Error (catch_message err))"
  using assms by (simp add: request_def axios_call_def)

text \<open>
  C6. A response with status 500 and the JSON body \<^verbatim>\<open>null\<close>: the status is not a
  success, \<^verbatim>\<open>typeof null\<close> is \<^verbatim>\<open>"object"\<close>, and the destructuring of \<^verbatim>\<open>message\<close> and
  \<^verbatim>\<open>details\<close> throws. The promise of \<^verbatim>\<open>request\<close> is rejected with a TypeError; the
  result is neither \<^verbatim>\<open>Success\<close> nor \<^verbatim>\<open>Error\<close>.
\<close>

theorem request_null_body_throws:
  "fst (request scripted api0 GET ''/stacks'' no_request JUndefined (script [respond 500 JNull]))
     = Inl TypeError"
  by (simp add: run_simps)

lemma typed_response_message:
  assumes "typed_error_body d"
  shows "response_message stringify d = Inr (spec_body_message stringify d)"
proof (cases d)
  case (JObj kvs)
  with assms have
    m: "map_of kvs ''message'' = None \<or> (\<exists>s. map_of kvs ''message'' = Some (JStr s))" and
    d: "map_of kvs ''details'' = None \<or> (\<exists>s. map_of kvs ''details'' = Some (JStr s))"
    by (auto simp: typed_error_body_def split: option.splits jsval.splits)
  from m d show ?thesis
    unfolding JObj
    by (auto simp: response_message_def spec_body_message_def js_join_def compact_def Let_def)
next
  case JNull
  with assms show ?thesis by (simp add: typed_error_body_def)
qed (simp_all add: response_message_def spec_body_message_def js_join_def compact_def)

text \<open>
  Trimming, said without \<open>js_trim\<close>: white space around a core that neither starts
  nor ends with white space leaves the core.
\<close>

lemma js_trim_core:
  assumes l: "list_all is_space l" and t: "list_all is_space t"
    and mid: "mid = [] \<or> (\<not> is_space (hd mid) \<and> \<not> is_space (last mid))"
  shows "js_trim (l @ mid @ t) = mid"
proof (cases "mid = []")
  case True
  from l t have "list_all is_space (l @ t)" by simp
  then have "dropWhile is_space (l @ t) = []"
    unfolding dropWhile_eq_Nil_conv list_all_iff .
  with True have d: "dropWhile is_space (l @ mid @ t) = []" by (simp only: append_Nil)
  show ?thesis unfolding js_trim_def d using True by simp
next
  case False
  with mid have h: "\<not> is_space (hd mid)" and e: "\<not> is_space (last mid)" by simp_all
  from False h have "dropWhile is_space (mid @ t) = mid @ t"
    by (cases mid) simp_all
  with l have 1: "dropWhile is_space (l @ mid @ t) = mid @ t"
    by (simp add: dropWhile_append list_all_iff)
  from False e have "dropWhile is_space (rev mid) = rev mid"
    by (cases "rev mid") (simp_all add: last_rev [symmetric] hd_rev)
  with t have "dropWhile is_space (rev (mid @ t)) = rev mid"
    by (simp add: dropWhile_append list_all_iff)
  with 1 show ?thesis by (simp add: js_trim_def)
qed

lemma join_status:
  assumes "st \<noteq> 0"
  shows "js_join '' - '' (compact [JNum st, JStr msg]) = status_prefixed st msg"
  using assms by (simp add: js_join_def compact_def status_prefixed_def)

text \<open>
  C7. The message of a failed request. A rejected transport call: \<^verbatim>\<open>"Unknown error"\<close>
  for a falsy thrown value, else the message of the thrown value when it is not empty,
  else what its \<^verbatim>\<open>toString()\<close> gives; no status in front. A response that is not a
  success, with a typed body and a status that is not 0: the trimmed string body, or
  the non-empty \<^verbatim>\<open>message\<close> and \<^verbatim>\<open>details\<close> of an object joined with \<^verbatim>\<open>": "\<close> (the
  serialized body when both are empty), or \<^verbatim>\<open>"Unknown error"\<close>; the status and
  \<^verbatim>\<open>" - "\<close> go in front of a message that is not empty, and the status alone stands
  for an empty one. The trimmed string body is the body without the white space at its
  two ends (tab, line feed, vertical tab, form feed, carriage return, space, no-break
  space): what is left is the core between them.
\<close>

theorem request_error_message:
  "(axios rt (request_config this m p b t) (server e) = (Inl ThrownFalsy, w')
      \<longrightarrow> fst (request rt this m p b t e) = Inr (Error ''Unknown error''))
   \<and> (axios rt (request_config this m p b t) (server e) = (Inl (ThrownTruthy (Some msg) str), w')
        \<and> msg \<noteq> []
      \<longrightarrow> fst (request rt this m p b t e) = Inr (Error msg))
   \<and> (axios rt (request_config this m p b t) (server e) = (Inl (ThrownTruthy mo str), w')
        \<and> (mo = None \<or> mo = Some [])
      \<longrightarrow> fst (request rt this m p b t e) = Inr (Error str))
   \<and> (axios rt (request_config this m p b t) (server e) = (Inr r, w')
        \<and> \<not> success_status (status r) \<and> status r \<noteq> 0 \<and> typed_error_body (body r)
      \<longrightarrow> fst (request rt this m p b t e) =
            Inr (Error (status_prefixed (status r)
                          (spec_body_message (JSON_stringify rt) (body r)))))
   \<and> (axios rt (request_config this m p b t) (server e) = (Inr r, w')
        \<and> \<not> success_status (status r) \<and> status r \<noteq> 0
        \<and> body r = JStr (ws1 @ core @ ws2)
        \<and> list_all is_space ws1 \<and> list_all is_space ws2
        \<and> (core = [] \<or> (\<not> is_space (hd core) \<and> \<not> is_space (last core)))
      \<longrightarrow> fst (request rt this m p b t e) = Inr (Error (status_prefixed (status r) core)))"
proof (intro conjI impI)
  assume "axios rt (request_config this m p b t) (server e) = (Inl ThrownFalsy, w')"
  then show "fst (request rt this m p b t e) = Inr (Error ''Unknown error'')"
    using request_rejected by fastforce
next
  assume "axios rt (request_config this m p b t) (server e) = (Inl (ThrownTruthy (Some msg) str), w')
        \<and> msg \<noteq> []"
  then show "fst (request rt this m p b t e) = Inr (Error msg)"
    using request_rejected [of rt this m p b t e "ThrownTruthy (Some msg) str" w'] by simp
next
  assume "axios rt (request_config this m p b t) (server e) = (Inl (ThrownTruthy mo str), w')
        \<and> (mo = None \<or> mo = Some [])"
  then show "fst (request rt this m p b t e) = Inr (Error str)"
    using request_rejected [of rt this m p b t e "ThrownTruthy mo str" w'] by auto
next
  assume a: "axios rt (request_config this m p b t) (server e) = (Inr r, w')
        \<and> \<not> success_status (status r) \<and> status r \<noteq> 0 \<and> typed_error_body (body r)"
  then have "response_message (JSON_stringify rt) (body r) =
      Inr (spec_body_message (JSON_stringify rt) (body r))"
    by (simp add: typed_response_message)
  moreover have "js_join '' - ''
      (compact [JNum (status r), JStr (spec_body_message (JSON_stringify rt) (body r))]) =
      status_prefixed (status r) (spec_body_message (JSON_stringify rt) (body r))"
    using a by (simp add: join_status)
  ultimately show "fst (request rt this m p b t e) =
            Inr (Error (status_prefixed (status r)
                          (spec_body_message (JSON_stringify rt) (body r))))"
    using a by (simp add: request_def axios_call_def Let_def)
next
  assume a: "axios rt (request_config this m p b t) (server e) = (Inr r, w')
        \<and> \<not> success_status (status r) \<and> status r \<noteq> 0
        \<and> body r = JStr (ws1 @ core @ ws2)
        \<and> list_all is_space ws1 \<and> list_all is_space ws2
        \<and> (core = [] \<or> (\<not> is_space (hd core) \<and> \<not> is_space (last core)))"
  then have "js_trim (ws1 @ core @ ws2) = core"
    using js_trim_core [of ws1 ws2 core] by blast
  with a have "response_message (JSON_stringify rt) (body r) = Inr core"
    by (simp add: response_message_def)
  moreover have "js_join '' - '' (compact [JNum (status r), JStr core]) =
      status_prefixed (status r) core"
    using a by (simp add: join_status)
  ultimately show "fst (request rt this m p b t e) = Inr (Error (status_prefixed (status r) core))"
    using a by (simp add: request_def axios_call_def Let_def)
qed

theorem request_error_message_witness:
  "fst (request scripted api0 GET ''/stacks'' no_request JUndefined (script [])) =
     Inr (Error ''Unknown error'')
   \<and> fst (request scripted api0 GET ''/stacks'' no_request JUndefined
          (script [Inl (ThrownTruthy (Some ''Network Error'') ''Error: Network Error'')])) =
     Inr (Error ''Network Error'')
   \<and> fst (request scripted api0 GET ''/stacks'' no_request JUndefined
          (script [Inl (ThrownTruthy None ''timeout'')])) =
     Inr (Error ''timeout'')
   \<and> fst (request scripted api0 GET ''/stacks'' no_request JUndefined
          (script [respond 500 (JObj [(''message'', JStr ''Bad''), (''details'', JStr ''x'')])])) =
     Inr (Error ''500 - Bad: x'')
   \<and> fst (request scripted api0 GET ''/stacks'' no_request JUndefined
          (script [respond 404
             (JStr ([CHR 0x20, CHR 0x09, CHR 0xA0] @ ''Not found'' @ [CHR 0x0D, CHR 0x0A]))])) =
     Inr (Error ''404 - Not found'')"
proof -
  let ?cfg = "request_config api0 GET ''/stacks'' no_request JUndefined"
  let ?body = "JObj [(''message'', JStr ''Bad''), (''details'', JStr ''x'')]"
  have a: "axios scripted ?cfg (server (script [])) = (Inl ThrownFalsy, [])"
    by (simp add: scripted_def script_def)
  have b: "axios scripted ?cfg
      (server (script [Inl (ThrownTruthy (Some ''Network Error'') ''Error: Network Error'')])) =
      (Inl (ThrownTruthy (Some ''Network Error'') ''Error: Network Error''), [])"
    "''Network Error'' \<noteq> []"
    by (simp_all add: scripted_def script_def)
  have c: "axios scripted ?cfg (server (script [Inl (ThrownTruthy None ''timeout'')])) =
      (Inl (ThrownTruthy None ''timeout''), [])"
    by (simp add: scripted_def script_def)
  have d: "axios scripted ?cfg (server (script [respond 500 ?body])) =
      (Inr \<lparr>status = 500, body = ?body\<rparr>, [])"
    "\<not> success_status (status \<lparr>status = 500, body = ?body\<rparr>)"
    "status \<lparr>status = 500, body = ?body\<rparr> \<noteq> 0"
    "typed_error_body (body \<lparr>status = 500, body = ?body\<rparr>)"
    by (simp_all add: scripted_def script_def respond_def success_status_def typed_error_body_def)
  have v: "status_prefixed 500 (spec_body_message (JSON_stringify scripted) ?body) = ''500 - Bad: x''"
    by (simp add: status_prefixed_def spec_body_message_def string_of_int_def digit_char_def)
  let ?ws1 = "[CHR 0x20, CHR 0x09, CHR 0xA0]"
  let ?ws2 = "[CHR 0x0D, CHR 0x0A]"
  let ?str = "JStr (?ws1 @ ''Not found'' @ ?ws2)"
  have s: "axios scripted ?cfg (server (script [respond 404 ?str])) =
      (Inr \<lparr>status = 404, body = ?str\<rparr>, [])"
    "\<not> success_status (status \<lparr>status = 404, body = ?str\<rparr>)"
    "status \<lparr>status = 404, body = ?str\<rparr> \<noteq> 0"
    "body \<lparr>status = 404, body = ?str\<rparr> = JStr (?ws1 @ ''Not found'' @ ?ws2)"
    "list_all is_space ?ws1" "list_all is_space ?ws2"
    "''Not found'' = [] \<or> (\<not> is_space (hd ''Not found'') \<and> \<not> is_space (last ''Not found''))"
    by (simp_all add: scripted_def script_def respond_def success_status_def is_space_def)
  have u: "status_prefixed 404 ''Not found'' = ''404 - Not found''"
    by (simp add: status_prefixed_def string_of_int_def digit_char_def)
  note rem = request_error_message [of scripted api0 GET "''/stacks''" no_request JUndefined]
  have 1: "fst (request scripted api0 GET ''/stacks'' no_request JUndefined (script [])) =
     Inr (Error ''Unknown error'')"
    using rem [THEN conjunct1, rule_format, OF a] .
  have 2: "fst (request scripted api0 GET ''/stacks'' no_request JUndefined
          (script [Inl (ThrownTruthy (Some ''Network Error'') ''Error: Network Error'')])) =
     Inr (Error ''Network Error'')"
    using rem [THEN conjunct2, THEN conjunct1, rule_format, OF conjI, OF b] .
  have 3: "fst (request scripted api0 GET ''/stacks'' no_request JUndefined
          (script [Inl (ThrownTruthy None ''timeout'')])) =
     Inr (Error ''timeout'')"
    using rem [THEN conjunct2, THEN conjunct2, THEN conjunct1, rule_format, OF conjI, OF c disjI1,
        OF refl] .
  have 4: "fst (request scripted api0 GET ''/stacks'' no_request JUndefined
          (script [respond 500 ?body])) =
     Inr (Error (status_prefixed 500 (spec_body_message (JSON_stringify scripted) ?body)))"
    using rem [THEN conjunct2, THEN conjunct2, THEN conjunct2, THEN conjunct1, rule_format,
        OF conjI [OF d(1) conjI [OF d(2) conjI [OF d(3) d(4)]]]]
    by simp
  have 5: "fst (request scripted api0 GET ''/stacks'' no_request JUndefined
          (script [respond 404 ?str])) =
     Inr (Error (status_prefixed 404 ''Not found''))"
    using rem [THEN conjunct2, THEN conjunct2, THEN conjunct2, THEN conjunct2, rule_format,
        OF conjI [OF s(1) conjI [OF s(2) conjI [OF s(3) conjI [OF s(4) conjI [OF s(5)
          conjI [OF s(6) s(7)]]]]]]]
    by simp
  show ?thesis
    using 1 2 3 4 5 unfolding v u by (intro conjI)
qed

theorem error_message_counterexample:
  "fst (request scripted api0 GET ''/stacks'' no_request JUndefined (script [respond 404 (JStr [])]))
     = Inr (Error ''404'')
   \<and> spec_error_message (JSON_stringify scripted) (respond 404 (JStr [])) = ''404 - ''
   \<and> fst (request scripted api0 GET ''/stacks'' no_request JUndefined
          (script [Inl (ThrownTruthy (Some []) ''Error'')]))
     = Inr (Error ''Error'')
   \<and> spec_error_message (JSON_stringify scripted) (Inl (ThrownTruthy (Some []) ''Error''))
     = ''Unknown error''"
  by (simp add: run_simps spec_error_message_def spec_body_message_def)

section \<open>The base URL\<close>

lemma all_slashes_stripped:
  "list_all (\<lambda>x. x = CHR ''/'') s \<Longrightarrow> replace_trailing_slashes s = []"
  by (cases s) auto

lemma strip_Cons:
  "strip_trailing_slashes (c # cs) =
     (if list_all (\<lambda>x. x = CHR ''/'') (c # cs) then [] else c # strip_trailing_slashes cs)"
proof (cases "list_all (\<lambda>x. x = CHR ''/'') cs")
  case True
  then have "dropWhile (\<lambda>c. c = CHR ''/'') (rev cs) = []"
    by (simp add: list_all_iff)
  with True show ?thesis
    by (simp add: strip_trailing_slashes_def dropWhile_append list_all_iff)
next
  case False
  then have "\<not> (\<forall>x \<in> set (rev cs). x = CHR ''/'')" by (simp add: list_all_iff)
  then have "dropWhile (\<lambda>c. c = CHR ''/'') (rev cs @ [c]) = dropWhile (\<lambda>c. c = CHR ''/'') (rev cs) @ [c]"
    by (simp only: dropWhile_append if_False)
  with False show ?thesis
    by (simp add: strip_trailing_slashes_def)
qed

lemma replace_is_strip: "replace_trailing_slashes s = strip_trailing_slashes s"
proof (induction s)
  case Nil
  show ?case by (simp add: strip_trailing_slashes_def)
next
  case (Cons c cs)
  then show ?case by (simp only: replace_trailing_slashes.simps strip_Cons)
qed


lemma state_update_keeps:
  "map apiUrl (h[r := (h ! r)\<lparr>state := s\<rparr>]) = map apiUrl h \<and>
   map options (h[r := (h ! r)\<lparr>state := s\<rparr>]) = map options h"
proof (cases "r < length h")
  case True
  then show ?thesis by (simp add: map_update list_update_same_conv)
next
  case False
  then have "length h \<le> r" by simp
  then have "h[r := (h ! r)\<lparr>state := s\<rparr>] = h" by (rule list_update_beyond)
  then show ?thesis by (simp only:)
qed

lemma request_url:
  "url (request_config this m path b t) =
     apiUrl this @ (if startsWith path ''/'' then path else ''/'' @ path)"
  by (simp add: request_config_def getUrl_def Let_def)


text \<open>
  C9. The constructor keeps the options as they are given, so the getter \<^verbatim>\<open>baseUrl\<close>
  returns the input with its trailing slashes; \<^verbatim>\<open>apiUrl\<close> is the input without its
  trailing slashes, then \<^verbatim>\<open>/api\<close>. The URL of every request is \<^verbatim>\<open>apiUrl\<close>, then the
  path, with a slash in front of a path that does not start with one. \<^verbatim>\<open>setSession\<close>
  and \<^verbatim>\<open>clearSession\<close> change neither the options nor \<^verbatim>\<open>apiUrl\<close> of any instance.
\<close>

theorem base_url_and_request_url:
  "get_baseUrl (new_PortainerApi opts st) = baseUrl opts
   \<and> apiUrl (new_PortainerApi opts st) = strip_trailing_slashes (baseUrl opts) @ ''/api''
   \<and> url (request_config (new_PortainerApi opts st) m path b t) =
       strip_trailing_slashes (baseUrl opts) @ ''/api'' @
         (if startsWith path ''/'' then path else ''/'' @ path)
   \<and> sent (snd (request rt (new_PortainerApi opts st) m path b t e)) =
       sent e @ [request_config (new_PortainerApi opts st) m path b t]
   \<and> map apiUrl (setSession h r so) = map apiUrl h
   \<and> map options (setSession h r so) = map options h
   \<and> map apiUrl (clearSession h r) = map apiUrl h
   \<and> map options (clearSession h r) = map options h"
proof -
  have a: "apiUrl (new_PortainerApi opts st) = strip_trailing_slashes (baseUrl opts) @ ''/api''"
    by (simp add: new_PortainerApi_def replace_is_strip)
  have "get_baseUrl (new_PortainerApi opts st) = baseUrl opts"
    by (simp add: get_baseUrl_def new_PortainerApi_def)
  moreover have "url (request_config (new_PortainerApi opts st) m path b t) =
       strip_trailing_slashes (baseUrl opts) @ ''/api'' @
         (if startsWith path ''/'' then path else ''/'' @ path)"
    unfolding request_url a by simp
  moreover note a request_sent [of rt "new_PortainerApi opts st" m path b t e]
  moreover have "map apiUrl (setSession h r so) = map apiUrl h"
    "map options (setSession h r so) = map options h"
    "map apiUrl (clearSession h r) = map apiUrl h"
    "map options (clearSession h r) = map options h"
    unfolding setSession_def clearSession_def using state_update_keeps by blast+
  ultimately show ?thesis by (intro conjI)
qed


theorem base_url_and_request_url_witness:
  "get_baseUrl (new_PortainerApi \<lparr>baseUrl = ''http://h//''\<rparr> None) = ''http://h//''
   \<and> apiUrl (new_PortainerApi \<lparr>baseUrl = ''http://h//''\<rparr> None) = ''http://h/api''
   \<and> url (request_config (new_PortainerApi \<lparr>baseUrl = ''http://h//''\<rparr> None) GET ''stacks''
            no_request JUndefined) = ''http://h/api/stacks''"
proof -
  have s: "strip_trailing_slashes ''http://h//'' = ''http://h''"
    by (simp add: strip_trailing_slashes_def)
  have p: "startsWith ''stacks'' ''/'' = False"
    by (simp add: startsWith_def)
  show ?thesis
    using base_url_and_request_url [of "\<lparr>baseUrl = ''http://h//''\<rparr>" None GET "''stacks''"
      no_request JUndefined scripted "script []" "[]" 0 "\<lparr>token = JNull, endpointId = JNull\<rparr>"]
    unfolding ConstructorOptions.simps s p by simp
qed

theorem base_url_counterexample:
  "get_baseUrl (new_PortainerApi \<lparr>baseUrl = ''http://h/''\<rparr> None) = ''http://h/''
   \<and> strip_trailing_slashes ''http://h/'' = ''http://h''
   \<and> get_baseUrl (new_PortainerApi \<lparr>baseUrl = ''http://h/''\<rparr> None)
       \<noteq> strip_trailing_slashes ''http://h/''"
  by (simp add: get_baseUrl_def new_PortainerApi_def strip_trailing_slashes_def)

end
